theory Spec2Isabelle
  imports Main "HOL-Library.AList"
begin

section \<open>Python strings and conversions\<close>

text \<open>
  The parser works on decoded text. Strings are lists of characters, and the conversions
  below are the ASCII fragment of the Python built-ins the sources call:
  \<^verbatim>\<open>str.split(sep)\<close>, \<^verbatim>\<open>str.rstrip()\<close>, \<^verbatim>\<open>str.isdigit()\<close>, \<^verbatim>\<open>str.join\<close>, \<^verbatim>\<open>int(s)\<close> and
  \<^verbatim>\<open>float(s)\<close>. Every exception a source line can raise is a value of \<open>error\<close>, and a
  function that can raise returns \<open>error + 'a\<close>, with \<open>Inl\<close> for the exception.
\<close>

datatype error = KeyError | IndexError | ValueError | TypeError | HelperError

definition and_then :: "error + 'a \<Rightarrow> ('a \<Rightarrow> error + 'b) \<Rightarrow> error + 'b" where
  "and_then m f = (case m of Inl e \<Rightarrow> Inl e | Inr x \<Rightarrow> f x)"

text \<open>
  \<^verbatim>\<open>s.split(d)\<close> for a one-character separator: never empty, \<^verbatim>\<open>''.split(',') == ['']\<close>.
  A character that is not the separator goes to the front of the first part of the rest.
\<close>

fun split_on :: "char \<Rightarrow> string \<Rightarrow> string list" where
  "split_on d [] = [[]]"
| "split_on d (c # cs) =
     (if c = d then [] # split_on d cs
      else (case split_on d cs of
              w # ws \<Rightarrow> (c # w) # ws
            | [] \<Rightarrow> [[c]]))"

text \<open>\<^verbatim>\<open>xs[i]\<close> for \<open>i \<ge> 0\<close>: IndexError out of range.\<close>

definition index :: "'a list \<Rightarrow> nat \<Rightarrow> error + 'a" where
  "index xs i = (if i < length xs then Inr (xs ! i) else Inl IndexError)"


definition isspace :: "char \<Rightarrow> bool" where
  "isspace c = (c \<in> set [CHR 0x09, CHR 0x0A, CHR 0x0B, CHR 0x0C, CHR 0x0D,
                         CHR 0x1C, CHR 0x1D, CHR 0x1E, CHR 0x1F, CHR '' ''])"

definition rstrip :: "string \<Rightarrow> string" where
  "rstrip s = rev (dropWhile isspace (rev s))"

definition strip :: "string \<Rightarrow> string" where
  "strip s = dropWhile isspace (rstrip s)"

definition isdigit :: "char \<Rightarrow> bool" where
  "isdigit c = (c \<in> set ''0123456789'')"

definition digit_val :: "char \<Rightarrow> nat" where
  "digit_val c = of_char c - 48"

text \<open>
  The digits of a decimal literal: a digit, then digits each preceded by at most one
  underscore.
\<close>

fun digitpart :: "string \<Rightarrow> bool" where
  "digitpart [] = False"
| "digitpart [c] = isdigit c"
| "digitpart (c # d # r) =
     (isdigit c \<and> (if d = CHR ''_'' then digitpart r else digitpart (d # r)))"

definition digits_val :: "string \<Rightarrow> nat" where
  "digits_val s = foldl (\<lambda>a c. 10 * a + digit_val c) 0 (filter isdigit s)"

text \<open>
  \<^verbatim>\<open>int(s)\<close> on a string: surrounding whitespace is dropped, one sign is allowed, the rest
  is a decimal literal; anything else is a ValueError. Python's integers are unbounded.
\<close>

definition py_int :: "string \<Rightarrow> error + int" where
  "py_int s =
     (let t = strip s;
          neg = (t \<noteq> [] \<and> hd t = CHR ''-'');
          u = (if t \<noteq> [] \<and> (hd t = CHR ''-'' \<or> hd t = CHR ''+'') then tl t else t)
      in if digitpart u
         then Inr (if neg then - int (digits_val u) else int (digits_val u))
         else Inl ValueError)"

text \<open>
  \<^verbatim>\<open>float(s)\<close> accepts a signed decimal literal with an optional fraction and exponent, or
  one of the names inf, infinity and nan in any case. The double it denotes is kept as the
  literal it was read from: rounding to a double is not modelled.
\<close>

datatype pyfloat = Float_of string

definition lower :: "char \<Rightarrow> char" where
  "lower c = (if of_char c \<ge> (65::nat) \<and> of_char c \<le> (90::nat)
              then char_of (of_char c + (32::nat)) else c)"

definition exponent_ok :: "string \<Rightarrow> bool" where
  "exponent_ok e =
     (e = [] \<or>
      (lower (hd e) = CHR ''e'' \<and>
       digitpart (if tl e \<noteq> [] \<and> (hd (tl e) = CHR ''-'' \<or> hd (tl e) = CHR ''+'')
                  then tl (tl e) else tl e)))"

definition is_expchar :: "char \<Rightarrow> bool" where
  "is_expchar c = (lower c = CHR ''e'')"

definition mantissa_ok :: "string \<Rightarrow> bool" where
  "mantissa_ok m =
     (case split_on (CHR ''.'') m of
        [i] \<Rightarrow> digitpart i
      | [i, f] \<Rightarrow> (digitpart i \<and> (f = [] \<or> digitpart f)) \<or> (i = [] \<and> digitpart f)
      | _ \<Rightarrow> False)"

definition float_literal :: "string \<Rightarrow> bool" where
  "float_literal s =
     (let t = strip s;
          u = (if t \<noteq> [] \<and> (hd t = CHR ''-'' \<or> hd t = CHR ''+'') then tl t else t)
      in map lower u \<in> set [''inf'', ''infinity'', ''nan'']
         \<or> (mantissa_ok (takeWhile (\<lambda>c. \<not> is_expchar c) u)
            \<and> exponent_ok (dropWhile (\<lambda>c. \<not> is_expchar c) u)))"

definition py_float :: "string \<Rightarrow> error + pyfloat" where
  "py_float s = (if float_literal s then Inr (Float_of (strip s)) else Inl ValueError)"

section \<open>genotype.py\<close>

text \<open>
  An attribute that \<^verbatim>\<open>__init__\<close> may leave unassigned is an option; \<open>ref_depth\<close> and
  \<open>alt_depth\<close> hold either a one-character string of AD or the integer it was converted to.
\<close>

datatype depth = Raw string | Num int

record Genotype =
  heterozygote :: bool
  homo_alt :: bool
  homo_ref :: bool
  has_variant :: bool
  genotyped :: bool
  phased :: bool
  allele_1 :: string
  allele_2 :: string
  genotype :: string
  ref_depth :: depth
  alt_depth :: depth
  depth_of_coverage :: "int option"
  genotype_quality :: "pyfloat option"
  phred_likelihoods :: "int list"

text \<open>
  Lines 81 to 89. \<^verbatim>\<open>AD[0]\<close> raises IndexError on the empty string. With more than two
  characters, the first and the third character decide which comma-separated element is
  converted: \<^verbatim>\<open>int(AD.split(',')[0])\<close> and \<^verbatim>\<open>int(AD.split(',')[1])\<close>.
\<close>

definition allele_depths :: "string \<Rightarrow> error + (depth \<times> depth)" where
  "allele_depths AD =
     (if AD = [] then Inl IndexError
      else
        let ref0 = Raw [hd AD]; alt0 = Raw [last AD] in
        if length AD > 2 then
          and_then
            (if isdigit (AD ! 0)
             then and_then (py_int (split_on (CHR '','') AD ! 0)) (\<lambda>n. Inr (Num n))
             else Inr ref0)
            (\<lambda>r.
               if isdigit (AD ! 2)
               then and_then (index (split_on (CHR '','') AD) 1)
                      (\<lambda>t. and_then (py_int t) (\<lambda>n. Inr (r, Num n)))
               else Inr (r, alt0))
        else Inr (ref0, alt0))"

text \<open>Lines 98 to 100: \<^verbatim>\<open>[int(score) for score in PL.split(',')]\<close> when PL is truthy.\<close>

fun int_all :: "string list \<Rightarrow> error + int list" where
  "int_all [] = Inr []"
| "int_all (s # ss) =
     and_then (py_int s) (\<lambda>n. and_then (int_all ss) (\<lambda>ns. Inr (n # ns)))"

definition likelihoods :: "string option \<Rightarrow> error + int list" where
  "likelihoods PL =
     (case PL of
        None \<Rightarrow> Inr []
      | Some s \<Rightarrow> if s = [] then Inr [] else int_all (split_on (CHR '','') s))"

text \<open>Lines 90 to 97: a ValueError of either conversion is swallowed.\<close>

definition try_int :: "string \<Rightarrow> int option" where
  "try_int s = (case py_int s of Inr n \<Rightarrow> Some n | Inl e \<Rightarrow> None)"

definition try_float :: "string \<Rightarrow> pyfloat option" where
  "try_float s = (case py_float s of Inr x \<Rightarrow> Some x | Inl e \<Rightarrow> None)"

text \<open>
  Lines 51 to 79: the flags as a tuple
  \<open>(heterozygote, homo_alt, homo_ref, has_variant, genotyped)\<close>, all False at first.
\<close>

definition zygosity :: "string \<Rightarrow> string \<Rightarrow> string \<Rightarrow> bool \<times> bool \<times> bool \<times> bool \<times> bool" where
  "zygosity a1 a2 gt =
     (if gt \<noteq> ''./.'' then
        (if gt = ''0/0'' then (False, False, True, False, True)
         else if a1 = a2 then (False, True, False, True, True)
         else (True, False, False, True, True))
      else (False, False, False, False, False))"

text \<open>
  \<^verbatim>\<open>Genotype.__init__(self, GT='./.', AD='.,.', DP='0', GQ='0', PL=None)\<close>. The statements
  run in the source's order, so an exception of the AD lines comes before one of PL.
\<close>

definition Genotype_init ::
  "string \<Rightarrow> string \<Rightarrow> string \<Rightarrow> string \<Rightarrow> string option \<Rightarrow> error + Genotype" where
  "Genotype_init GT AD DP GQ PL =
     (let ph = (CHR ''|'' \<in> set GT);
          a1 = (if length GT < 3 then GT else [hd GT]);
          a2 = (if length GT < 3 then ''.'' else [last GT]);
          gt = a1 @ ''/'' @ a2;
          (het, halt, href, hasv, gtd) = zygosity a1 a2 gt
      in and_then (allele_depths AD) (\<lambda>(rd, ad).
         and_then (likelihoods PL) (\<lambda>pls.
           Inr \<lparr> heterozygote = het, homo_alt = halt, homo_ref = href,
                 has_variant = hasv, genotyped = gtd, phased = ph,
                 allele_1 = a1, allele_2 = a2, genotype = gt,
                 ref_depth = rd, alt_depth = ad,
                 depth_of_coverage = try_int DP,
                 genotype_quality = try_float GQ,
                 phred_likelihoods = pls \<rparr>)))"


section \<open>The variant dictionary and the header\<close>





section \<open>utils/split\_variants.py\<close>

text \<open>
  The module uses four names that it neither defines nor imports. \<^verbatim>\<open>build_info_string\<close> is
  taken to be the helper of \<^verbatim>\<open>vcf_parser.utils\<close>, like the two helpers the module does
  import; \<^verbatim>\<open>Genotype\<close> is the class of genotype.py; \<^verbatim>\<open>gt_format\<close> is a parameter; and the
  call of \<^verbatim>\<open>logger.error\<close>, which precedes the re-raise of line 66, is left out.
\<close>











section \<open>parser.py\<close>

text \<open>
  \<^verbatim>\<open>__iter__\<close> calls \<^verbatim>\<open>format_variant\<close> with four arguments at line 149 and with the line alone
  at line 165; both calls go to the parameter \<open>format_variant\<close>, which is told which one it
  is.
\<close>





section \<open>The helpers that are not among the sources\<close>















section \<open>The genotype call\<close>

lemma Genotype_init_flags:
  assumes "Genotype_init GT AD DP GQ PL = Inr g"
  shows "(heterozygote g, homo_alt g, homo_ref g, has_variant g, genotyped g) =
         zygosity (if length GT < 3 then GT else [hd GT])
                  (if length GT < 3 then ''.'' else [last GT])
                  ((if length GT < 3 then GT else [hd GT]) @ ''/'' @
                   (if length GT < 3 then ''.'' else [last GT]))
         \<and> allele_1 g = (if length GT < 3 then GT else [hd GT])
         \<and> allele_2 g = (if length GT < 3 then ''.'' else [last GT])
         \<and> genotype g = allele_1 g @ ''/'' @ allele_2 g
         \<and> phased g = (CHR ''|'' \<in> set GT)"
  using assms
  by (auto simp: Genotype_init_def Let_def and_then_def split: sum.splits prod.splits)

lemma Genotype_init_defaults: "\<exists>g. Genotype_init GT ''.,.'' ''0'' ''0'' None = Inr g"
  by (simp add: Genotype_init_def allele_depths_def likelihoods_def and_then_def Let_def
      isdigit_def split: prod.splits)

text \<open>
  C1. For every genotype call that \<^verbatim>\<open>Genotype.__init__\<close> constructs, whatever the genotype
  token and the depth, quality and likelihood tokens, exactly one of \<open>homo_ref\<close>,
  \<open>homo_alt\<close> and \<open>heterozygote\<close> is true, or all three are false and \<open>genotyped\<close> is false;
  and \<open>has_variant\<close> is true exactly when \<open>homo_alt\<close> or \<open>heterozygote\<close> is.
\<close>

theorem genotype_flags_exclusive:
  assumes "Genotype_init GT AD DP GQ PL = Inr g"
  shows "((homo_ref g \<and> \<not> homo_alt g \<and> \<not> heterozygote g)
          \<or> (\<not> homo_ref g \<and> homo_alt g \<and> \<not> heterozygote g)
          \<or> (\<not> homo_ref g \<and> \<not> homo_alt g \<and> heterozygote g)
          \<or> (\<not> homo_ref g \<and> \<not> homo_alt g \<and> \<not> heterozygote g \<and> \<not> genotyped g))
         \<and> (has_variant g \<longleftrightarrow> homo_alt g \<or> heterozygote g)"
proof -
  from Genotype_init_flags[OF assms]
  obtain a1 a2 gt where
    "(heterozygote g, homo_alt g, homo_ref g, has_variant g, genotyped g) = zygosity a1 a2 gt"
    by blast
  then show ?thesis
    by (auto simp: zygosity_def split: if_splits)
qed

theorem genotype_flags_exclusive_witness:
  "\<exists>g. Genotype_init ''1|1'' ''.,.'' ''0'' ''0'' None = Inr g \<and> homo_alt g \<and> \<not> homo_ref g
       \<and> \<not> heterozygote g \<and> has_variant g \<and> phased g"
proof -
  obtain g where g: "Genotype_init ''1|1'' ''.,.'' ''0'' ''0'' None = Inr g"
    using Genotype_init_defaults by blast
  from genotype_flags_exclusive[OF g] Genotype_init_flags[OF g]
  show ?thesis using g by (auto simp: zygosity_def)
qed

text \<open>
  C2. The claim is that a non-numeric depth, quality or likelihood token never makes the
  constructor raise. The conversions of DP and GQ are inside \<^verbatim>\<open>try\<close> blocks; the
  conversion of PL (line 100) and the conversions of AD (lines 87 and 89) are not. With
  the other arguments at their defaults, the likelihood token \<^verbatim>\<open>a\<close> ends the constructor
  with a ValueError, and so does the depth token \<^verbatim>\<open>1a,2\<close>.
\<close>

theorem non_numeric_PL_raises:
  "Genotype_init ''./.'' ''.,.'' ''0'' ''0'' (Some ''a'') = Inl ValueError
   \<and> Genotype_init ''./.'' ''1a,2'' ''0'' ''0'' None = Inl ValueError"
  by (simp add: Genotype_init_def allele_depths_def likelihoods_def py_int_def strip_def
      rstrip_def isspace_def isdigit_def and_then_def zygosity_def Let_def)

text \<open>
  C3. The claim's example is the depth token \<^verbatim>\<open>10,20\<close> with reference depth 10 and
  alternate depth 20. The code tests the third character of the token (line 88), here the
  comma, so the alternate depth stays the last character of the token, the string \<^verbatim>\<open>0\<close>.
\<close>

theorem AD_10_20_alt_depth:
  "\<exists>g. Genotype_init ''0/1'' ''10,20'' ''0'' ''0'' None = Inr g
       \<and> ref_depth g = Num 10 \<and> alt_depth g = Raw ''0''"
  by (simp add: Genotype_init_def allele_depths_def likelihoods_def py_int_def strip_def
      rstrip_def isspace_def isdigit_def and_then_def zygosity_def digits_val_def
      digit_val_def index_def Let_def)

text \<open>
  C10. Every genotype token shorter than three characters, other than the token \<^verbatim>\<open>.\<close>,
  is classified as a heterozygote carrying a variant, whatever the other tokens are; with
  the other tokens at their defaults the constructor does return a call. The token \<^verbatim>\<open>0\<close>
  is such a token: its genotype is \<^verbatim>\<open>0/.\<close> and it is not homozygous reference.
\<close>

theorem short_token_heterozygote:
  assumes "length GT < 3" and "GT \<noteq> ''.''"
  shows "(\<exists>g. Genotype_init GT ''.,.'' ''0'' ''0'' None = Inr g)
       \<and> (\<forall>AD DP GQ PL g. Genotype_init GT AD DP GQ PL = Inr g \<longrightarrow>
            heterozygote g \<and> has_variant g \<and> \<not> homo_ref g \<and> \<not> homo_alt g \<and> genotyped g
            \<and> genotype g = GT @ ''/.'')"
proof (rule conjI)
  show "\<exists>g. Genotype_init GT ''.,.'' ''0'' ''0'' None = Inr g"
    by (rule Genotype_init_defaults)
next
  show "\<forall>AD DP GQ PL g. Genotype_init GT AD DP GQ PL = Inr g \<longrightarrow>
            heterozygote g \<and> has_variant g \<and> \<not> homo_ref g \<and> \<not> homo_alt g \<and> genotyped g
            \<and> genotype g = GT @ ''/.''"
  proof (intro allI impI)
    fix AD DP GQ PL g
    assume a: "Genotype_init GT AD DP GQ PL = Inr g"
    from Genotype_init_flags[OF a] assms
    have z: "(heterozygote g, homo_alt g, homo_ref g, has_variant g, genotyped g) =
             zygosity GT ''.'' (GT @ ''/.'')"
      and gg: "genotype g = GT @ ''/.''"
      by auto
    have ne: "GT @ ''/.'' \<noteq> ''./.''" "GT @ ''/.'' \<noteq> ''0/0''"
      using assms by auto
    from z ne assms(2) gg
    show "heterozygote g \<and> has_variant g \<and> \<not> homo_ref g \<and> \<not> homo_alt g \<and> genotyped g
          \<and> genotype g = GT @ ''/.''"
      by (simp add: zygosity_def)
  qed
qed

theorem short_token_heterozygote_witness:
  "length ''0'' < 3 \<and> ''0'' \<noteq> ''.'' \<and>
   (\<exists>g. Genotype_init ''0'' ''.,.'' ''0'' ''0'' None = Inr g \<and> heterozygote g \<and> has_variant g
        \<and> \<not> homo_ref g \<and> genotype g = ''0/.'')"
proof -
  have h: "length ''0'' < 3" "''0'' \<noteq> ''.''" by simp_all
  from short_token_heterozygote[OF h] show ?thesis by auto
qed

section \<open>Splitting a variant\<close>

lemma and_then_simps [simp]:
  "and_then (Inl e) f = Inl e"
  "and_then (Inr x) f = f x"
  by (simp_all add: and_then_def)


lemma split_on_not_Nil [simp]: "split_on d s \<noteq> []"
  by (induction s) (auto split: list.splits)






















section \<open>The genotypes of a split variant\<close>











section \<open>Iterating over the lines\<close>












end
